theory Spec2Isabelle
  imports Main "HOL-Library.AList" "HOL-Library.Sublist"
begin

section \<open>Python values and exceptions\<close>

text \<open>
  The module \<^verbatim>\<open>pragma/core/types.py\<close> is dynamically typed: constructor arguments are
  tested with \<^verbatim>\<open>isinstance\<close> and stored as they come. The values that reach the entity
  constructors are modelled by one datatype. \<^verbatim>\<open>bool\<close> is a subclass of \<^verbatim>\<open>int\<close> in Python,
  so \<^verbatim>\<open>isinstance(True, int)\<close> holds.
\<close>

datatype DataTypes = SPOT | FUTURE | OPTION

datatype pyval =
    VNone
  | VBool bool
  | VInt int
  | VStr string
  | VEnum DataTypes
  | VTuple "pyval list"
  | VList "pyval list"

text \<open>
  The exceptions that the module raises or that the calls it makes raise. \<^verbatim>\<open>TypeError\<close> and
  \<^verbatim>\<open>ClientException\<close> carry the message written in the source; \<^verbatim>\<open>ValueError\<close> is raised
  by the \<^verbatim>\<open>Enum\<close> lookup and by \<^verbatim>\<open>random.randint\<close> on an empty range, \<^verbatim>\<open>KeyError\<close> by a
  missing dict key and \<^verbatim>\<open>IndexError\<close> by a list index out of range.
\<close>

datatype error =
    TypeError string
  | ValueError
  | KeyError string
  | IndexError
  | ClientException string

fun isinstance_str :: "pyval \<Rightarrow> bool" where
  "isinstance_str (VStr s) = True"
| "isinstance_str v = False"

fun isinstance_int :: "pyval \<Rightarrow> bool" where
  "isinstance_int (VInt i) = True"
| "isinstance_int (VBool b) = True"
| "isinstance_int v = False"

text \<open>\<^verbatim>\<open>bool(x)\<close> on the values for which the constructors call it (instances of int).\<close>

fun py_bool :: "pyval \<Rightarrow> bool" where
  "py_bool (VInt i) = (i \<noteq> 0)"
| "py_bool (VBool b) = b"
| "py_bool VNone = False"
| "py_bool (VStr s) = (s \<noteq> [])"
| "py_bool (VEnum d) = True"
| "py_bool (VTuple xs) = (xs \<noteq> [])"
| "py_bool (VList xs) = (xs \<noteq> [])"

text \<open>A Python dict keeps insertion order: an association list with distinct keys.\<close>

type_synonym pydict = "(string \<times> pyval) list"

text \<open>
  The field-element codec \<^verbatim>\<open>str_to_felt\<close> is imported from \<^verbatim>\<open>pragma.core.utils\<close>; the
  constructors take it as a parameter. It returns an integer or raises.
\<close>

type_synonym codec = "string \<Rightarrow> error + int"

section \<open>Enumerations\<close>

datatype AggregationMode = MEDIAN | AVERAGE | ERROR

text \<open>Every member of a Python \<^verbatim>\<open>Enum\<close> has a \<^verbatim>\<open>name\<close> and a \<^verbatim>\<open>value\<close>.\<close>

fun AggregationMode_name :: "AggregationMode \<Rightarrow> string" where
  "AggregationMode_name MEDIAN = ''MEDIAN''"
| "AggregationMode_name AVERAGE = ''AVERAGE''"
| "AggregationMode_name ERROR = ''ERROR''"

fun AggregationMode_value :: "AggregationMode \<Rightarrow> string" where
  "AggregationMode_value MEDIAN = ''Median''"
| "AggregationMode_value AVERAGE = ''Mean''"
| "AggregationMode_value ERROR = ''Error''"

definition AggregationMode_serialize :: "AggregationMode \<Rightarrow> pydict" where
  "AggregationMode_serialize self = [(AggregationMode_value self, VNone)]"

datatype RequestStatus = UNINITIALIZED | RECEIVED | FULFILLED | CANCELLED | OUT_OF_GAS

fun RequestStatus_name :: "RequestStatus \<Rightarrow> string" where
  "RequestStatus_name UNINITIALIZED = ''UNINITIALIZED''"
| "RequestStatus_name RECEIVED = ''RECEIVED''"
| "RequestStatus_name FULFILLED = ''FULFILLED''"
| "RequestStatus_name CANCELLED = ''CANCELLED''"
| "RequestStatus_name OUT_OF_GAS = ''OUT_OF_GAS''"

fun RequestStatus_value :: "RequestStatus \<Rightarrow> string" where
  "RequestStatus_value UNINITIALIZED = ''UNINITIALIZED''"
| "RequestStatus_value RECEIVED = ''RECEIVED''"
| "RequestStatus_value FULFILLED = ''FULFILLED''"
| "RequestStatus_value CANCELLED = ''CANCELLED''"
| "RequestStatus_value OUT_OF_GAS = ''OUT_OF_GAS''"

definition RequestStatus_serialize :: "RequestStatus \<Rightarrow> pydict" where
  "RequestStatus_serialize self = [(RequestStatus_value self, VNone)]"


section \<open>Domain entities\<close>

text \<open>
  The statement \<^verbatim>\<open>if isinstance(x, str): x = str_to_felt(x)\<close>, which every entity
  constructor applies to its id arguments: a string goes through the codec (whose exception
  propagates), any other value is kept as it is.
\<close>

definition coerce_id :: "codec \<Rightarrow> pyval \<Rightarrow> error + pyval" where
  "coerce_id str_to_felt v =
     (case v of
        VStr s \<Rightarrow> (case str_to_felt s of Inl e \<Rightarrow> Inl e | Inr f \<Rightarrow> Inr (VInt f))
      | _ \<Rightarrow> Inr v)"

record Currency =
  id_Currency :: pyval
  decimals :: pyval
  is_abstract_currency :: pyval
  starknet_address :: pyval
  ethereum_address :: pyval

text \<open>
  \<^verbatim>\<open>Currency.__init__(self, id_, decimals, is_abstract_currency, starknet_address=None,
  ethereum_address=None)\<close>. The two defaults are \<^verbatim>\<open>None\<close>, so an omitted address is the
  argument \<open>VNone\<close>.
\<close>

definition Currency_init ::
  "codec \<Rightarrow> pyval \<Rightarrow> pyval \<Rightarrow> pyval \<Rightarrow> pyval \<Rightarrow> pyval \<Rightarrow> error + Currency" where
  "Currency_init str_to_felt id_arg decimals_arg is_abstract_arg starknet_arg ethereum_arg =
     (case coerce_id str_to_felt id_arg of
        Inl e \<Rightarrow> Inl e
      | Inr i \<Rightarrow>
          Inr \<lparr> id_Currency = i,
                decimals = decimals_arg,
                is_abstract_currency =
                  (if isinstance_int is_abstract_arg then VBool (py_bool is_abstract_arg)
                   else is_abstract_arg),
                starknet_address = (if starknet_arg = VNone then VInt 0 else starknet_arg),
                ethereum_address = (if ethereum_arg = VNone then VInt 0 else ethereum_arg) \<rparr>)"

definition Currency_serialize :: "Currency \<Rightarrow> pyval list" where
  "Currency_serialize self =
     [id_Currency self, decimals self, is_abstract_currency self,
      starknet_address self, ethereum_address self]"

definition Currency_to_dict :: "Currency \<Rightarrow> pydict" where
  "Currency_to_dict self =
     [(''id'', id_Currency self),
      (''decimals'', decimals self),
      (''is_abstract_currency'', is_abstract_currency self),
      (''starknet_address'', starknet_address self),
      (''ethereum_address'', ethereum_address self)]"

text \<open>
  A call \<^verbatim>\<open>Currency(...)\<close> binds its arguments to the parameters of \<^verbatim>\<open>__init__\<close> before
  the body runs. The parameters (after \<^verbatim>\<open>self\<close>) are listed with their defaults; there is
  neither \<^verbatim>\<open>*args\<close> nor \<^verbatim>\<open>**kwargs\<close>. The interpreter first goes through the keyword
  arguments in the order they are written: a keyword that names no parameter, or one that a
  positional argument has filled already, is a \<^verbatim>\<open>TypeError\<close>. Then too many positional
  arguments are a \<^verbatim>\<open>TypeError\<close>, and so is a parameter without default that got no
  argument. The interpreter's message also names the function and the argument; the model
  keeps the part that tells the four kinds apart.
\<close>

type_synonym signature = "(string \<times> pyval option) list"

fun check_keywords :: "string list \<Rightarrow> nat \<Rightarrow> (string \<times> pyval) list \<Rightarrow> error option" where
  "check_keywords names npos [] = None"
| "check_keywords names npos ((k, v) # kwargs) =
     (if \<not> List.member names k then Some (TypeError ''got an unexpected keyword argument'')
      else if List.member (take npos names) k
      then Some (TypeError ''got multiple values for argument'')
      else check_keywords names npos kwargs)"

definition bind_arguments ::
  "signature \<Rightarrow> pyval list \<Rightarrow> (string \<times> pyval) list \<Rightarrow> error + pyval list" where
  "bind_arguments params args kwargs =
     (case check_keywords (map fst params) (length args) kwargs of
        Some e \<Rightarrow> Inl e
      | None \<Rightarrow>
          if length params < length args
          then Inl (TypeError ''takes fewer positional arguments than were given'')
          else if list_ex (\<lambda>(name, default). default = None \<and> map_of kwargs name = None)
                    (drop (length args) params)
          then Inl (TypeError ''missing required positional arguments'')
          else Inr (args @
                 map (\<lambda>(name, default).
                        case map_of kwargs name of Some v \<Rightarrow> v | None \<Rightarrow> the default)
                   (drop (length args) params)))"

definition Currency_signature :: signature where
  "Currency_signature =
     [(''id_'', None),
      (''decimals'', None),
      (''is_abstract_currency'', None),
      (''starknet_address'', Some VNone),
      (''ethereum_address'', Some VNone)]"

text \<open>The call \<^verbatim>\<open>Currency(*args, **kwargs)\<close>: binding, then \<^verbatim>\<open>__init__\<close>.\<close>

definition Currency_call ::
  "codec \<Rightarrow> pyval list \<Rightarrow> (string \<times> pyval) list \<Rightarrow> error + Currency" where
  "Currency_call str_to_felt args kwargs =
     (case bind_arguments Currency_signature args kwargs of
        Inl e \<Rightarrow> Inl e
      | Inr vs \<Rightarrow> Currency_init str_to_felt (vs ! 0) (vs ! 1) (vs ! 2) (vs ! 3) (vs ! 4))"

record Pair =
  id_Pair :: pyval
  quote_currency_id :: pyval
  base_currency_id :: pyval

definition Pair_init :: "codec \<Rightarrow> pyval \<Rightarrow> pyval \<Rightarrow> pyval \<Rightarrow> error + Pair" where
  "Pair_init str_to_felt id_arg quote_arg base_arg =
     (case coerce_id str_to_felt id_arg of
        Inl e \<Rightarrow> Inl e
      | Inr i \<Rightarrow>
          (case coerce_id str_to_felt quote_arg of
             Inl e \<Rightarrow> Inl e
           | Inr q \<Rightarrow>
               (case coerce_id str_to_felt base_arg of
                  Inl e \<Rightarrow> Inl e
                | Inr b \<Rightarrow>
                    Inr \<lparr> id_Pair = i, quote_currency_id = q, base_currency_id = b \<rparr>)))"

definition Pair_serialize :: "Pair \<Rightarrow> pyval list" where
  "Pair_serialize self = [id_Pair self, quote_currency_id self, base_currency_id self]"

definition Pair_to_dict :: "Pair \<Rightarrow> pydict" where
  "Pair_to_dict self =
     [(''id'', id_Pair self),
      (''quote_currency_id'', quote_currency_id self),
      (''base_currency_id'', base_currency_id self)]"

text \<open>
  \<^verbatim>\<open>DataTypes = Enum("DataTypes", ["SPOT", "FUTURE", "OPTION"])\<close>: the functional API numbers
  the members from 1. The call \<^verbatim>\<open>DataTypes(x)\<close> returns \<^verbatim>\<open>x\<close> when it is a member, the
  member whose value equals \<^verbatim>\<open>x\<close> otherwise (\<^verbatim>\<open>True == 1\<close> in Python), and raises
  \<^verbatim>\<open>ValueError\<close> when there is none.
\<close>

fun DataTypes_value :: "DataTypes \<Rightarrow> int" where
  "DataTypes_value SPOT = 1"
| "DataTypes_value FUTURE = 2"
| "DataTypes_value OPTION = 3"

definition DataTypes_by_value :: "int \<Rightarrow> error + DataTypes" where
  "DataTypes_by_value i =
     (if i = 1 then Inr SPOT else if i = 2 then Inr FUTURE else if i = 3 then Inr OPTION
      else Inl ValueError)"

fun DataTypes_call :: "pyval \<Rightarrow> error + DataTypes" where
  "DataTypes_call (VEnum d) = Inr d"
| "DataTypes_call (VInt i) = DataTypes_by_value i"
| "DataTypes_call (VBool b) = DataTypes_by_value (if b then 1 else 0)"
| "DataTypes_call v = Inl ValueError"

record DataType =
  data_type :: DataTypes
  pair_id :: pyval
  expiration_timestamp :: pyval

definition DataType_init :: "codec \<Rightarrow> pyval \<Rightarrow> pyval \<Rightarrow> pyval \<Rightarrow> error + DataType" where
  "DataType_init str_to_felt data_type_arg pair_id_arg expiration_arg =
     (case (if isinstance_str pair_id_arg then coerce_id str_to_felt pair_id_arg
            else if \<not> isinstance_int pair_id_arg
            then Inl (TypeError ''Pair ID must be string (will be converted to felt) or integer'')
            else Inr pair_id_arg) of
        Inl e \<Rightarrow> Inl e
      | Inr p \<Rightarrow>
          (case DataTypes_call data_type_arg of
             Inl e \<Rightarrow> Inl e
           | Inr d \<Rightarrow>
               Inr \<lparr> data_type = d, pair_id = p, expiration_timestamp = expiration_arg \<rparr>))"

definition DataType_serialize :: "DataType \<Rightarrow> pydict" where
  "DataType_serialize self =
     (if data_type self = SPOT then [(''SpotEntry'', pair_id self)]
      else if data_type self = FUTURE
      then [(''FutureEntry'', VTuple [pair_id self, expiration_timestamp self])]
      else [])"

record PoolKey =
  token_0 :: pyval
  token_1 :: pyval
  fee :: pyval
  tick_spacing :: pyval
  extension :: pyval

text \<open>\<^verbatim>\<open>PoolKey.__init__\<close> stores its five arguments; \<^verbatim>\<open>extension\<close> defaults to 0.\<close>

definition PoolKey_init :: "pyval \<Rightarrow> pyval \<Rightarrow> pyval \<Rightarrow> pyval \<Rightarrow> pyval option \<Rightarrow> PoolKey" where
  "PoolKey_init token_0_arg token_1_arg fee_arg tick_spacing_arg extension_arg =
     \<lparr> token_0 = token_0_arg, token_1 = token_1_arg, fee = fee_arg,
       tick_spacing = tick_spacing_arg,
       extension = (case extension_arg of None \<Rightarrow> VInt 0 | Some x \<Rightarrow> x) \<rparr>"

definition PoolKey_serialize :: "PoolKey \<Rightarrow> pyval list" where
  "PoolKey_serialize self =
     [token_0 self, token_1 self, fee self, tick_spacing self, extension self]"

definition PoolKey_to_dict :: "PoolKey \<Rightarrow> pydict" where
  "PoolKey_to_dict self =
     [(''token_0'', token_0 self),
      (''token_1'', token_1 self),
      (''fee'', fee self),
      (''tick_spacing'', tick_spacing self),
      (''extension'', extension self)]"

section \<open>Field-element codec\<close>

text \<open>
  Modelled from the spec: the functions \<^verbatim>\<open>str_to_felt\<close> and \<^verbatim>\<open>felt_to_str\<close> of
  \<^verbatim>\<open>pragma.core.utils\<close>, which the module imports and whose source is not part of the
  files at hand. The spec describes a codec that "converts short ASCII identifiers to/from a
  fixed-width integer (felt) representation", losslessly. The model reads the characters of
  the identifier as the base-256 digits of the integer, most significant first, and decodes
  by repeated division. A felt holds 31 such digits.
\<close>

definition str_to_felt :: "string \<Rightarrow> int" where
  "str_to_felt text = foldl (\<lambda>acc c. acc * 256 + of_char c) 0 text"

function felt_to_str :: "int \<Rightarrow> string" where
  "felt_to_str felt =
     (if felt \<le> 0 then [] else felt_to_str (felt div 256) @ [char_of (felt mod 256)])"
  by pat_completeness auto
termination
  by (relation "measure nat") auto

declare felt_to_str.simps [simp del]

text \<open>
  The identifiers the codec supports: at most 31 characters, each an ASCII character other
  than NUL (a leading NUL byte leaves no trace in the integer).
\<close>

definition supported_identifier :: "string \<Rightarrow> bool" where
  "supported_identifier s \<longleftrightarrow>
     length s \<le> 31 \<and> (\<forall>c \<in> set s. 0 < (of_char c :: nat) \<and> (of_char c :: nat) < 128)"

text \<open>The codec as the constructors take it: on this model it never raises.\<close>

definition felt_codec :: codec where
  "felt_codec s = Inr (str_to_felt s)"

section \<open>Network registry\<close>

definition DEVNET :: string where "DEVNET = ''devnet''"
definition TESTNET :: string where "TESTNET = ''testnet''"
definition SEPOLIA :: string where "SEPOLIA = ''sepolia''"
definition MAINNET :: string where "MAINNET = ''mainnet''"
definition SHARINGAN :: string where "SHARINGAN = ''sharingan''"
definition FORK_DEVNET :: string where "FORK_DEVNET = ''fork_devnet''"
definition PRAGMA_TESTNET :: string where "PRAGMA_TESTNET = ''pragma_testnet''"

text \<open>The dict literal \<^verbatim>\<open>CHAIN_IDS\<close>, in the order it is written.\<close>

definition CHAIN_IDS :: "(string \<times> int) list" where
  "CHAIN_IDS =
     [(DEVNET, 1536727068981429685321),
      (SHARINGAN, 1536727068981429685321),
      (TESTNET, 1536727068981429685321),
      (MAINNET, 23448594291968334),
      (PRAGMA_TESTNET, 8908953246943201047421899664489),
      (FORK_DEVNET, 1536727068981429685321),
      (SEPOLIA, 393402133025997798000961)]"

text \<open>
  The comprehension \<^verbatim>\<open>{v: k for k, v in d.items()}\<close>: it goes through the items in
  order and stores \<^verbatim>\<open>v: k\<close> in the dict under construction, replacing the value of a key
  that is already there.
\<close>

definition invert_dict :: "('k \<times> 'v) list \<Rightarrow> ('v \<times> 'k) list" where
  "invert_dict items = fold (\<lambda>(k, v) d. AList.update v k d) items []"

definition CHAIN_ID_TO_NETWORK :: "(int \<times> string) list" where
  "CHAIN_ID_TO_NETWORK = invert_dict CHAIN_IDS"

definition RPC_URLS :: "(string \<times> string list) list" where
  "RPC_URLS =
     [(MAINNET, [''https://starknet-mainnet.public.blastapi.io/rpc/v0_6'']),
      (TESTNET, [''https://starknet-testnet.public.blastapi.io/rpc/v0_6'']),
      (SEPOLIA, [''https://starknet-sepolia.public.blastapi.io/rpc/v0_6''])]"

text \<open>
  \<^verbatim>\<open>random.randint(a, b)\<close> returns some integer \<open>N\<close> with \<open>a \<le> N \<le> b\<close> and raises
  \<^verbatim>\<open>ValueError\<close> when the range is empty. The generator is passed explicitly: \<open>rng a b\<close> is
  what it draws for the range, and \<open>valid_rng\<close> says that every draw is in its range.
\<close>

type_synonym rng = "int \<Rightarrow> int \<Rightarrow> int"

definition valid_rng :: "rng \<Rightarrow> bool" where
  "valid_rng rng \<longleftrightarrow> (\<forall>a b. a \<le> b \<longrightarrow> a \<le> rng a b \<and> rng a b \<le> b)"

definition randint :: "rng \<Rightarrow> int \<Rightarrow> int \<Rightarrow> error + int" where
  "randint rng a b = (if b < a then Inl ValueError else Inr (rng a b))"

text \<open>
  The generator that draws \<open>d\<close> from every range that contains \<open>d\<close> (and the lower end
  from the others): running the code with it is running the code when the draw is \<open>d\<close>.
\<close>

definition draw_rng :: "int \<Rightarrow> rng" where
  "draw_rng d = (\<lambda>a b. if a \<le> d \<and> d \<le> b then d else a)"

text \<open>List indexing \<^verbatim>\<open>xs[i]\<close>: a negative index counts from the end.\<close>

definition py_index :: "'a list \<Rightarrow> int \<Rightarrow> error + 'a" where
  "py_index xs i =
     (if 0 \<le> i \<and> i < int (length xs) then Inr (xs ! nat i)
      else if - int (length xs) \<le> i \<and> i < 0 then Inr (xs ! nat (int (length xs) + i))
      else Inl IndexError)"

text \<open>
  The two statements that \<^verbatim>\<open>get_rpc_url\<close> runs for a pool-backed network:
  \<^verbatim>\<open>random_index = random.randint(0, len(RPC_URLS[N]) - 1)\<close> and
  \<^verbatim>\<open>return RPC_URLS[N][random_index]\<close>. The table is a parameter, so that pools of any
  size are covered.
\<close>

definition random_rpc_url :: "(string \<times> string list) list \<Rightarrow> rng \<Rightarrow> string \<Rightarrow> error + string" where
  "random_rpc_url urls rng network =
     (case map_of urls network of
        None \<Rightarrow> Inl (KeyError network)
      | Some pool \<Rightarrow>
          (case randint rng 0 (int (length pool) - 1) of
             Inl e \<Rightarrow> Inl e
           | Inr random_index \<Rightarrow> py_index pool random_index))"

text \<open>\<^verbatim>\<open>str(n)\<close> for an integer: its decimal digits, with a minus sign when negative.\<close>

fun decimal_digits :: "nat \<Rightarrow> string" where
  "decimal_digits n =
     (if n < 10 then [char_of (48 + n)]
      else decimal_digits (n div 10) @ [char_of (48 + n mod 10)])"

declare decimal_digits.simps [simp del]

definition str_of_int :: "int \<Rightarrow> string" where
  "str_of_int i = (if i < 0 then CHR ''-'' # decimal_digits (nat (- i)) else decimal_digits (nat i))"

definition get_rpc_url_in ::
  "(string \<times> string list) list \<Rightarrow> rng \<Rightarrow> string \<Rightarrow> int \<Rightarrow> error + string" where
  "get_rpc_url_in urls rng network port =
     (if prefix ''http'' network then Inr network
      else if network = TESTNET then random_rpc_url urls rng TESTNET
      else if network = SEPOLIA then random_rpc_url urls rng SEPOLIA
      else if network = MAINNET then random_rpc_url urls rng MAINNET
      else if network = SHARINGAN then Inr ''https://sharingan.madara.zone''
      else if network = PRAGMA_TESTNET then Inr ''https://testnet.pragmaoracle.com/rpc''
      else if network = DEVNET then Inr (''http://127.0.0.1:'' @ str_of_int port @ ''/rpc'')
      else if network = FORK_DEVNET then Inr (''http://127.0.0.1:'' @ str_of_int port @ ''/rpc'')
      else Inl (ClientException ''Must provide a network name or an RPC URL.''))"

text \<open>
  \<^verbatim>\<open>get_rpc_url(network=TESTNET, port=5050)\<close> on the module's table; an omitted argument
  takes its default.
\<close>

definition get_rpc_url :: "rng \<Rightarrow> string option \<Rightarrow> int option \<Rightarrow> error + string" where
  "get_rpc_url rng network port =
     get_rpc_url_in RPC_URLS rng
       (case network of None \<Rightarrow> TESTNET | Some n \<Rightarrow> n)
       (case port of None \<Rightarrow> 5050 | Some p \<Rightarrow> p)"

section \<open>Properties of the enumerations\<close>

text \<open>
  Claim C7, as stated: for every variant of AggregationMode and of RequestStatus,
  serialize() is the one-key mapping whose key is the variant's name and whose value is None.
  It fails at AggregationMode.AVERAGE: the member is named AVERAGE, and serialize() returns
  the mapping with the key "Mean", the member's value, which is another word and not the
  name in another letter case (the two differ in length).
\<close>

theorem C7_counterexample:
  "AggregationMode_serialize AVERAGE = [(''Mean'', VNone)] \<and>
   AggregationMode_name AVERAGE = ''AVERAGE'' \<and>
   AggregationMode_serialize AVERAGE \<noteq> [(AggregationMode_name AVERAGE, VNone)] \<and>
   length (AggregationMode_value AVERAGE) \<noteq> length (AggregationMode_name AVERAGE)"
  by (simp add: AggregationMode_serialize_def)

text \<open>
  Claim C7, amended: for every member of AggregationMode and of RequestStatus, serialize() is
  the one-key mapping from the member's value (its on-chain tag) to None. The tags of
  AggregationMode are Median, Mean and Error; for every RequestStatus member the tag is the
  member's name. In particular AggregationMode.MEDIAN.serialize() == {"Median": None}.
\<close>

theorem C7_enum_serialize:
  "AggregationMode_serialize a = [(AggregationMode_value a, VNone)] \<and>
   RequestStatus_serialize r = [(RequestStatus_name r, VNone)] \<and>
   map AggregationMode_serialize [MEDIAN, AVERAGE, ERROR] =
     [[(''Median'', VNone)], [(''Mean'', VNone)], [(''Error'', VNone)]]"
  by (cases r) (simp_all add: AggregationMode_serialize_def RequestStatus_serialize_def)

section \<open>Properties of the domain entities\<close>

text \<open>Two felts of the modelled codec, used where a concrete codec is needed.\<close>

lemma felt_BTC_USD: "str_to_felt ''BTC/USD'' = 18669995996566340"
  by (simp add: str_to_felt_def)

lemma felt_BTC: "str_to_felt ''BTC'' = 4346947"
  by (simp add: str_to_felt_def)

text \<open>
  Claim C1, as stated, includes the examples DataType("SPOT", "BTC/USD", None) and
  DataType("FUTURE", "BTC/USD", 1700000000). The members of DataTypes have the values 1, 2
  and 3, so the lookup DataTypes("SPOT") finds no member: both constructions raise ValueError
  and there is nothing to serialize.
\<close>

theorem C1_counterexample:
  "DataType_init felt_codec (VStr ''SPOT'') (VStr ''BTC/USD'') VNone = Inl ValueError \<and>
   DataType_init felt_codec (VStr ''FUTURE'') (VStr ''BTC/USD'') (VInt 1700000000) = Inl ValueError \<and>
   DataTypes_call (VStr ''SPOT'') = Inl ValueError"
  by (simp add: DataType_init_def coerce_id_def felt_codec_def)

text \<open>
  Claim C1, amended: the tag of a DataType is a member of DataTypes or its value (1 for SPOT,
  2 for FUTURE, 3 for OPTION), not the member's name as a string. For every DataType that was
  constructed, serialize() is determined by the variant: \<open>{"SpotEntry": pair_id}\<close> for SPOT,
  whatever the expiration_timestamp; \<open>{"FutureEntry": (pair_id, expiration_timestamp)}\<close>
  for FUTURE; the empty mapping for OPTION. A string pair_id is stored as its felt, an integer
  one as it is. In particular DataType(DataTypes.SPOT, "BTC/USD", None).serialize() is
  \<open>{"SpotEntry": felt}\<close> and DataType(DataTypes.FUTURE, "BTC/USD", 1700000000).serialize() is
  \<open>{"FutureEntry": (felt, 1700000000)}\<close>, where felt is the felt of "BTC/USD".
\<close>

theorem C1_DataType_serialize:
  "(DataType_init codec tag pid ts = Inr d \<longrightarrow>
      DataTypes_call tag = Inr (data_type d) \<and>
      (\<forall>s. pid = VStr s \<longrightarrow> (\<exists>f. codec s = Inr f \<and> pair_id d = VInt f)) \<and>
      (\<not> isinstance_str pid \<longrightarrow> isinstance_int pid \<and> pair_id d = pid) \<and>
      expiration_timestamp d = ts \<and>
      (data_type d = SPOT \<longrightarrow> DataType_serialize d = [(''SpotEntry'', pair_id d)]) \<and>
      (data_type d = FUTURE \<longrightarrow>
         DataType_serialize d = [(''FutureEntry'', VTuple [pair_id d, ts])]) \<and>
      (data_type d = OPTION \<longrightarrow> DataType_serialize d = [])) \<and>
   (codec ''BTC/USD'' = Inr felt \<longrightarrow>
      map_sum id DataType_serialize (DataType_init codec (VEnum SPOT) (VStr ''BTC/USD'') ts)
        = Inr [(''SpotEntry'', VInt felt)] \<and>
      map_sum id DataType_serialize
        (DataType_init codec (VEnum FUTURE) (VStr ''BTC/USD'') (VInt 1700000000))
        = Inr [(''FutureEntry'', VTuple [VInt felt, VInt 1700000000])] \<and>
      map_sum id DataType_serialize (DataType_init codec (VEnum OPTION) (VStr ''BTC/USD'') ts)
        = Inr []) \<and>
   DataTypes_call (VEnum t) = Inr t \<and>
   map DataTypes_call [VInt 1, VInt 2, VInt 3] = [Inr SPOT, Inr FUTURE, Inr OPTION] \<and>
   DataTypes_call (VStr name) = Inl ValueError \<and>
   (codec s = Inr f \<and> tag \<in> {VEnum SPOT, VInt 1} \<longrightarrow>
      map_sum id DataType_serialize (DataType_init codec tag (VStr s) ts)
        = Inr [(''SpotEntry'', VInt f)]) \<and>
   (codec s = Inr f \<and> tag \<in> {VEnum FUTURE, VInt 2} \<longrightarrow>
      map_sum id DataType_serialize (DataType_init codec tag (VStr s) ts)
        = Inr [(''FutureEntry'', VTuple [VInt f, ts])]) \<and>
   (codec s = Inr f \<and> tag \<in> {VEnum OPTION, VInt 3} \<longrightarrow>
      map_sum id DataType_serialize (DataType_init codec tag (VStr s) ts) = Inr []) \<and>
   (tag \<in> {VEnum SPOT, VInt 1} \<longrightarrow>
      map_sum id DataType_serialize (DataType_init codec tag (VInt i) ts)
        = Inr [(''SpotEntry'', VInt i)]) \<and>
   (tag \<in> {VEnum FUTURE, VInt 2} \<longrightarrow>
      map_sum id DataType_serialize (DataType_init codec tag (VInt i) ts)
        = Inr [(''FutureEntry'', VTuple [VInt i, ts])]) \<and>
   (tag \<in> {VEnum OPTION, VInt 3} \<longrightarrow>
      map_sum id DataType_serialize (DataType_init codec tag (VInt i) ts) = Inr [])"
proof -
  have general: "DataType_init codec tag pid ts = Inr d \<longrightarrow>
      DataTypes_call tag = Inr (data_type d) \<and>
      (\<forall>s. pid = VStr s \<longrightarrow> (\<exists>f. codec s = Inr f \<and> pair_id d = VInt f)) \<and>
      (\<not> isinstance_str pid \<longrightarrow> isinstance_int pid \<and> pair_id d = pid) \<and>
      expiration_timestamp d = ts \<and>
      (data_type d = SPOT \<longrightarrow> DataType_serialize d = [(''SpotEntry'', pair_id d)]) \<and>
      (data_type d = FUTURE \<longrightarrow>
         DataType_serialize d = [(''FutureEntry'', VTuple [pair_id d, ts])]) \<and>
      (data_type d = OPTION \<longrightarrow> DataType_serialize d = [])"
    by (auto simp: DataType_init_def DataType_serialize_def coerce_id_def
        split: sum.splits if_splits)
  have str_id: "map_sum id DataType_serialize (DataType_init codec tg (VStr x) e) =
      Inr (case u of SPOT \<Rightarrow> [(''SpotEntry'', VInt g)]
           | FUTURE \<Rightarrow> [(''FutureEntry'', VTuple [VInt g, e])]
           | OPTION \<Rightarrow> [])"
    if "codec x = Inr g" "DataTypes_call tg = Inr u" for tg x e u g
    using that by (cases u) (simp_all add: DataType_init_def DataType_serialize_def coerce_id_def)
  have int_id: "map_sum id DataType_serialize (DataType_init codec tg (VInt j) e) =
      Inr (case u of SPOT \<Rightarrow> [(''SpotEntry'', VInt j)]
           | FUTURE \<Rightarrow> [(''FutureEntry'', VTuple [VInt j, e])]
           | OPTION \<Rightarrow> [])"
    if "DataTypes_call tg = Inr u" for tg j e u
    using that by (cases u) (simp_all add: DataType_init_def DataType_serialize_def)
  have calls: "DataTypes_call (VEnum t) = Inr t"
    "DataTypes_call (VInt 1) = Inr SPOT" "DataTypes_call (VInt 2) = Inr FUTURE"
    "DataTypes_call (VInt 3) = Inr OPTION" "DataTypes_call (VStr name) = Inl ValueError"
    "DataTypes_call (VEnum SPOT) = Inr SPOT" "DataTypes_call (VEnum FUTURE) = Inr FUTURE"
    "DataTypes_call (VEnum OPTION) = Inr OPTION"
    by (simp_all add: DataTypes_by_value_def)
  show ?thesis
    apply (intro conjI)
    subgoal by (rule general)
    subgoal by (auto simp: str_id [OF _ calls(6)] str_id [OF _ calls(7)] str_id [OF _ calls(8)])
    subgoal by (rule calls)
    subgoal by (simp add: DataTypes_by_value_def)
    subgoal by (rule calls)
    subgoal by (auto simp: str_id [OF _ calls(6)] str_id [OF _ calls(2)])
    subgoal by (auto simp: str_id [OF _ calls(7)] str_id [OF _ calls(3)])
    subgoal by (auto simp: str_id [OF _ calls(8)] str_id [OF _ calls(4)])
    subgoal by (auto simp: int_id [OF calls(6)] int_id [OF calls(2)])
    subgoal by (auto simp: int_id [OF calls(7)] int_id [OF calls(3)])
    subgoal by (auto simp: int_id [OF calls(8)] int_id [OF calls(4)])
    done
qed

theorem C1_DataType_serialize_witness:
  "DataType_init felt_codec (VInt 1) (VStr ''BTC/USD'') (VInt 7)
     = Inr \<lparr>data_type = SPOT, pair_id = VInt 18669995996566340, expiration_timestamp = VInt 7\<rparr> \<and>
   DataType_serialize
     \<lparr>data_type = SPOT, pair_id = VInt 18669995996566340, expiration_timestamp = VInt 7\<rparr>
     = [(''SpotEntry'', VInt 18669995996566340)] \<and>
   felt_codec ''BTC/USD'' = Inr 18669995996566340 \<and>
   map_sum id DataType_serialize
     (DataType_init felt_codec (VEnum FUTURE) (VStr ''BTC/USD'') (VInt 1700000000))
     = Inr [(''FutureEntry'', VTuple [VInt 18669995996566340, VInt 1700000000])] \<and>
   map_sum id DataType_serialize
     (DataType_init felt_codec (VInt 2) (VStr ''BTC/USD'') (VInt 1700000000))
     = Inr [(''FutureEntry'', VTuple [VInt 18669995996566340, VInt 1700000000])] \<and>
   map_sum id DataType_serialize (DataType_init felt_codec (VInt 3) (VInt 5) VNone) = Inr []"
proof -
  have init: "DataType_init felt_codec (VInt 1) (VStr ''BTC/USD'') (VInt 7)
     = Inr \<lparr>data_type = SPOT, pair_id = VInt 18669995996566340, expiration_timestamp = VInt 7\<rparr>"
    by (simp add: DataType_init_def coerce_id_def felt_codec_def felt_BTC_USD
        DataTypes_by_value_def)
  have felt: "felt_codec ''BTC/USD'' = Inr 18669995996566340"
    by (simp add: felt_codec_def felt_BTC_USD)
  show ?thesis
    using init felt
      C1_DataType_serialize [where codec = felt_codec and tag = "VInt 1"
        and pid = "VStr ''BTC/USD''" and ts = "VInt 7"
        and d = "\<lparr>data_type = SPOT, pair_id = VInt 18669995996566340,
                   expiration_timestamp = VInt 7\<rparr>"
        and felt = 18669995996566340]
      C1_DataType_serialize [where codec = felt_codec and tag = "VInt 2"
        and s = "''BTC/USD''" and f = 18669995996566340 and ts = "VInt 1700000000"]
      C1_DataType_serialize [where codec = felt_codec and tag = "VInt 3" and i = 5
        and ts = VNone]
    by simp
qed

text \<open>The two ways of writing the three-argument call that Python accepts.\<close>

lemma Currency_call_positional:
  "Currency_call codec [a, b, c] [] = Currency_init codec a b c VNone VNone"
  by (simp add: Currency_call_def bind_arguments_def Currency_signature_def)

lemma Currency_call_keywords:
  "Currency_call codec [] [(''id_'', a), (''decimals'', b), (''is_abstract_currency'', c)]
     = Currency_init codec a b c VNone VNone"
  by (simp add: Currency_call_def bind_arguments_def Currency_signature_def)

text \<open>
  Claim C2, as stated, includes the example
  Currency(id="BTC", decimals=8, is_abstract_currency=0). The first parameter of the
  constructor is named \<^verbatim>\<open>id_\<close> and there is no \<^verbatim>\<open>**kwargs\<close>: the keyword \<^verbatim>\<open>id\<close>
  names no parameter, so the call raises TypeError and there is nothing to serialize.
\<close>

theorem C2_counterexample:
  "Currency_call felt_codec []
     [(''id'', VStr ''BTC''), (''decimals'', VInt 8), (''is_abstract_currency'', VInt 0)]
     = Inl (TypeError ''got an unexpected keyword argument'')"
  by (simp add: Currency_call_def bind_arguments_def Currency_signature_def)

text \<open>
  Claim C2, amended: for every Currency, serialize() is the list of the five fields id,
  decimals, is_abstract_currency, starknet_address, ethereum_address, in that order, and it
  has no error path. After construction with a string id the id is the felt of the string,
  an is_abstract_currency of 0 or 1 has become False or True, and an omitted address is 0.
  In particular Currency(id_="BTC", decimals=8, is_abstract_currency=0).serialize(), which is
  also Currency("BTC", 8, 0).serialize(), has five elements, the third False and the last
  two 0.
\<close>

theorem C2_Currency_serialize:
  "Currency_serialize c =
     [id_Currency c, decimals c, is_abstract_currency c, starknet_address c, ethereum_address c] \<and>
   length (Currency_serialize c) = 5 \<and>
   (Currency_init codec idv dec abstract sa ea = Inr c \<longrightarrow>
      (\<forall>s. idv = VStr s \<longrightarrow> (\<exists>f. codec s = Inr f \<and> id_Currency c = VInt f)) \<and>
      (\<not> isinstance_str idv \<longrightarrow> id_Currency c = idv) \<and>
      decimals c = dec \<and>
      (abstract = VInt 0 \<longrightarrow> is_abstract_currency c = VBool False) \<and>
      (abstract = VInt 1 \<longrightarrow> is_abstract_currency c = VBool True) \<and>
      (\<forall>n. abstract = VInt n \<longrightarrow> is_abstract_currency c = VBool (n \<noteq> 0)) \<and>
      (\<forall>b. abstract = VBool b \<longrightarrow> is_abstract_currency c = VBool b) \<and>
      (\<not> isinstance_int abstract \<longrightarrow> is_abstract_currency c = abstract) \<and>
      (sa = VNone \<longrightarrow> starknet_address c = VInt 0) \<and>
      (sa \<noteq> VNone \<longrightarrow> starknet_address c = sa) \<and>
      (ea = VNone \<longrightarrow> ethereum_address c = VInt 0) \<and>
      (ea \<noteq> VNone \<longrightarrow> ethereum_address c = ea)) \<and>
   (codec ''BTC'' = Inr felt \<longrightarrow>
      map_sum id Currency_serialize
        (Currency_init codec (VStr ''BTC'') (VInt 8) (VInt 0) VNone VNone)
        = Inr [VInt felt, VInt 8, VBool False, VInt 0, VInt 0]) \<and>
   Currency_call codec [] [(''id_'', idv), (''decimals'', dec), (''is_abstract_currency'', abstract)]
     = Currency_init codec idv dec abstract VNone VNone \<and>
   Currency_call codec [idv, dec, abstract] [] = Currency_init codec idv dec abstract VNone VNone \<and>
   Currency_call codec [idv, dec, abstract, sa, ea] [] = Currency_init codec idv dec abstract sa ea \<and>
   (codec ''BTC'' = Inr felt \<longrightarrow>
      map_sum id Currency_serialize
        (Currency_call codec []
           [(''id_'', VStr ''BTC''), (''decimals'', VInt 8), (''is_abstract_currency'', VInt 0)])
        = Inr [VInt felt, VInt 8, VBool False, VInt 0, VInt 0] \<and>
      map_sum id Currency_serialize (Currency_call codec [VStr ''BTC'', VInt 8, VInt 0] [])
        = Inr [VInt felt, VInt 8, VBool False, VInt 0, VInt 0])"
proof -
  have init: "Currency_init codec idv dec abstract sa ea = Inr c \<longrightarrow>
      (\<forall>s. idv = VStr s \<longrightarrow> (\<exists>f. codec s = Inr f \<and> id_Currency c = VInt f)) \<and>
      (\<not> isinstance_str idv \<longrightarrow> id_Currency c = idv) \<and>
      decimals c = dec \<and>
      (abstract = VInt 0 \<longrightarrow> is_abstract_currency c = VBool False) \<and>
      (abstract = VInt 1 \<longrightarrow> is_abstract_currency c = VBool True) \<and>
      (\<forall>n. abstract = VInt n \<longrightarrow> is_abstract_currency c = VBool (n \<noteq> 0)) \<and>
      (\<forall>b. abstract = VBool b \<longrightarrow> is_abstract_currency c = VBool b) \<and>
      (\<not> isinstance_int abstract \<longrightarrow> is_abstract_currency c = abstract) \<and>
      (sa = VNone \<longrightarrow> starknet_address c = VInt 0) \<and>
      (sa \<noteq> VNone \<longrightarrow> starknet_address c = sa) \<and>
      (ea = VNone \<longrightarrow> ethereum_address c = VInt 0) \<and>
      (ea \<noteq> VNone \<longrightarrow> ethereum_address c = ea)"
    by (auto simp: Currency_init_def coerce_id_def split: sum.splits pyval.splits)
  have ex: "map_sum id Currency_serialize
        (Currency_init codec (VStr ''BTC'') (VInt 8) (VInt 0) VNone VNone)
        = Inr [VInt felt, VInt 8, VBool False, VInt 0, VInt 0]" if "codec ''BTC'' = Inr felt"
    using that by (simp add: Currency_init_def Currency_serialize_def coerce_id_def)
  have full: "Currency_call codec [idv, dec, abstract, sa, ea] []
      = Currency_init codec idv dec abstract sa ea"
    by (simp add: Currency_call_def bind_arguments_def Currency_signature_def)
  show ?thesis
    apply (intro conjI)
    subgoal by (simp add: Currency_serialize_def)
    subgoal by (simp add: Currency_serialize_def)
    subgoal by (rule init)
    subgoal using ex by blast
    subgoal by (rule Currency_call_keywords)
    subgoal by (rule Currency_call_positional)
    subgoal by (rule full)
    subgoal using ex by (simp add: Currency_call_keywords Currency_call_positional)
    done
qed

theorem C2_Currency_serialize_witness:
  "Currency_init felt_codec (VStr ''BTC'') (VInt 8) (VInt 1) VNone (VInt 5)
     = Inr \<lparr>id_Currency = VInt 4346947, decimals = VInt 8, is_abstract_currency = VBool True,
            starknet_address = VInt 0, ethereum_address = VInt 5\<rparr> \<and>
   Currency_serialize
     \<lparr>id_Currency = VInt 4346947, decimals = VInt 8, is_abstract_currency = VBool True,
       starknet_address = VInt 0, ethereum_address = VInt 5\<rparr>
     = [VInt 4346947, VInt 8, VBool True, VInt 0, VInt 5] \<and>
   felt_codec ''BTC'' = Inr 4346947 \<and>
   map_sum id Currency_serialize
     (Currency_init felt_codec (VStr ''BTC'') (VInt 8) (VInt 0) VNone VNone)
     = Inr [VInt 4346947, VInt 8, VBool False, VInt 0, VInt 0] \<and>
   map_sum id Currency_serialize
     (Currency_call felt_codec []
        [(''id_'', VStr ''BTC''), (''decimals'', VInt 8), (''is_abstract_currency'', VInt 0)])
     = Inr [VInt 4346947, VInt 8, VBool False, VInt 0, VInt 0] \<and>
   map_sum id Currency_serialize (Currency_call felt_codec [VStr ''BTC'', VInt 8, VInt 0] [])
     = Inr [VInt 4346947, VInt 8, VBool False, VInt 0, VInt 0]"
proof -
  have init: "Currency_init felt_codec (VStr ''BTC'') (VInt 8) (VInt 1) VNone (VInt 5)
     = Inr \<lparr>id_Currency = VInt 4346947, decimals = VInt 8, is_abstract_currency = VBool True,
            starknet_address = VInt 0, ethereum_address = VInt 5\<rparr>"
    by (simp add: Currency_init_def coerce_id_def felt_codec_def felt_BTC)
  have felt: "felt_codec ''BTC'' = Inr 4346947"
    by (simp add: felt_codec_def felt_BTC)
  note t = C2_Currency_serialize [where
      c = "\<lparr>id_Currency = VInt 4346947, decimals = VInt 8, is_abstract_currency = VBool True,
             starknet_address = VInt 0, ethereum_address = VInt 5\<rparr>"
      and codec = felt_codec and idv = "VStr ''BTC''" and dec = "VInt 8" and abstract = "VInt 1"
      and sa = VNone and ea = "VInt 5" and felt = 4346947]
  from t init have
    "Currency_serialize
       \<lparr>id_Currency = VInt 4346947, decimals = VInt 8, is_abstract_currency = VBool True,
         starknet_address = VInt 0, ethereum_address = VInt 5\<rparr>
     = [VInt 4346947, VInt 8, VBool True, VInt 0, VInt 5]"
    by simp
  moreover from t felt have
    "map_sum id Currency_serialize
       (Currency_init felt_codec (VStr ''BTC'') (VInt 8) (VInt 0) VNone VNone)
     = Inr [VInt 4346947, VInt 8, VBool False, VInt 0, VInt 0]"
    by blast
  moreover from t felt have
    "map_sum id Currency_serialize
       (Currency_call felt_codec []
          [(''id_'', VStr ''BTC''), (''decimals'', VInt 8), (''is_abstract_currency'', VInt 0)])
     = Inr [VInt 4346947, VInt 8, VBool False, VInt 0, VInt 0]"
    by blast
  moreover from t felt have
    "map_sum id Currency_serialize (Currency_call felt_codec [VStr ''BTC'', VInt 8, VInt 0] [])
     = Inr [VInt 4346947, VInt 8, VBool False, VInt 0, VInt 0]"
    by blast
  ultimately show ?thesis using init felt by blast
qed

text \<open>
  Claim C3, as stated: constructing a Currency raises a type error if and only if the id is
  neither a string nor an integer. The constructor has no such test: with the id None it
  returns a Currency whose id is None.
\<close>

theorem C3_counterexample:
  "Currency_init felt_codec VNone (VInt 8) (VInt 0) VNone VNone
     = Inr \<lparr>id_Currency = VNone, decimals = VInt 8, is_abstract_currency = VBool False,
            starknet_address = VInt 0, ethereum_address = VInt 0\<rparr> \<and>
   \<not> isinstance_str VNone \<and> \<not> isinstance_int VNone"
  by (simp add: Currency_init_def coerce_id_def)

text \<open>
  Claim C3, amended: constructing a Currency fails exactly when the id is a string on which
  the codec raises, and then with the codec's exception, before any Currency exists. For a
  string that the codec converts the construction succeeds with the felt as id; for every id
  that is not a string (an integer or anything else) it succeeds and stores the id as it is.
\<close>

theorem C3_Currency_init_errors:
  "((\<exists>e. Currency_init codec idv dec abstract sa ea = Inl e) \<longleftrightarrow>
      (\<exists>s e. idv = VStr s \<and> codec s = Inl e)) \<and>
   (\<forall>s e. idv = VStr s \<and> codec s = Inl e \<longrightarrow>
      Currency_init codec idv dec abstract sa ea = Inl e) \<and>
   (\<forall>s f. idv = VStr s \<and> codec s = Inr f \<longrightarrow>
      (\<exists>c. Currency_init codec idv dec abstract sa ea = Inr c \<and> id_Currency c = VInt f)) \<and>
   (\<not> isinstance_str idv \<longrightarrow>
      (\<exists>c. Currency_init codec idv dec abstract sa ea = Inr c \<and> id_Currency c = idv))"
  by (cases idv) (auto simp: Currency_init_def coerce_id_def split: sum.splits)

theorem C3_Currency_init_errors_witness:
  "Currency_init (\<lambda>s. if s = [] then Inl ValueError else Inr (str_to_felt s))
     (VStr []) (VInt 8) (VInt 0) VNone VNone = Inl ValueError \<and>
   (\<exists>c. Currency_init (\<lambda>s. if s = [] then Inl ValueError else Inr (str_to_felt s))
     (VStr ''BTC'') (VInt 8) (VInt 0) VNone VNone = Inr c \<and> id_Currency c = VInt 4346947) \<and>
   (\<exists>c. Currency_init (\<lambda>s. if s = [] then Inl ValueError else Inr (str_to_felt s))
     (VInt 12) (VInt 8) (VInt 0) VNone VNone = Inr c \<and> id_Currency c = VInt 12)"
  using
    C3_Currency_init_errors [of "\<lambda>s. if s = [] then Inl ValueError else Inr (str_to_felt s)"
      "VStr []" "VInt 8" "VInt 0" VNone VNone]
    C3_Currency_init_errors [of "\<lambda>s. if s = [] then Inl ValueError else Inr (str_to_felt s)"
      "VStr ''BTC''" "VInt 8" "VInt 0" VNone VNone]
    C3_Currency_init_errors [of "\<lambda>s. if s = [] then Inl ValueError else Inr (str_to_felt s)"
      "VInt 12" "VInt 8" "VInt 0" VNone VNone]
  by (simp add: felt_BTC)

text \<open>
  Claim C10: for every Currency, Pair and PoolKey, serialize() is the list of the values of
  to_dict() in the order the fields are declared: the keys of to_dict() are the field names in
  that order, and looking each of them up gives the corresponding element of serialize().
\<close>

theorem C10_serialize_to_dict:
  "Currency_serialize c = map snd (Currency_to_dict c) \<and>
   map fst (Currency_to_dict c) =
     [''id'', ''decimals'', ''is_abstract_currency'', ''starknet_address'', ''ethereum_address''] \<and>
   map (map_of (Currency_to_dict c))
     [''id'', ''decimals'', ''is_abstract_currency'', ''starknet_address'', ''ethereum_address'']
     = map Some (Currency_serialize c) \<and>
   Pair_serialize p = map snd (Pair_to_dict p) \<and>
   map fst (Pair_to_dict p) = [''id'', ''quote_currency_id'', ''base_currency_id''] \<and>
   map (map_of (Pair_to_dict p)) [''id'', ''quote_currency_id'', ''base_currency_id'']
     = map Some (Pair_serialize p) \<and>
   PoolKey_serialize k = map snd (PoolKey_to_dict k) \<and>
   map fst (PoolKey_to_dict k) = [''token_0'', ''token_1'', ''fee'', ''tick_spacing'', ''extension''] \<and>
   map (map_of (PoolKey_to_dict k)) [''token_0'', ''token_1'', ''fee'', ''tick_spacing'', ''extension'']
     = map Some (PoolKey_serialize k)"
  by (simp add: Currency_serialize_def Currency_to_dict_def Pair_serialize_def Pair_to_dict_def
      PoolKey_serialize_def PoolKey_to_dict_def)

section \<open>Properties of the network registry\<close>

lemmas network_names =
  DEVNET_def TESTNET_def SEPOLIA_def MAINNET_def SHARINGAN_def FORK_DEVNET_def
  PRAGMA_TESTNET_def

lemma valid_rng_singleton: "valid_rng rng \<Longrightarrow> rng a a = a"
  unfolding valid_rng_def by (metis order_refl order_antisym)

lemma valid_rng_first: "valid_rng (\<lambda>a b. a)"
  by (simp add: valid_rng_def)

lemma random_rpc_url_pool:
  assumes "map_of urls network = Some pool" and "pool \<noteq> []" and "valid_rng rng"
  shows "random_rpc_url urls rng network = Inr (pool ! nat (rng 0 (int (length pool) - 1)))"
    and "nat (rng 0 (int (length pool) - 1)) < length pool"
proof -
  have len: "0 \<le> int (length pool) - 1" using assms(2) by (cases pool) simp_all
  with assms(3) have draw: "0 \<le> rng 0 (int (length pool) - 1)"
      "rng 0 (int (length pool) - 1) \<le> int (length pool) - 1"
    unfolding valid_rng_def by blast+
  then show "nat (rng 0 (int (length pool) - 1)) < length pool" by linarith
  from len draw show "random_rpc_url urls rng network = Inr (pool ! nat (rng 0 (int (length pool) - 1)))"
    by (simp add: random_rpc_url_def assms(1) randint_def py_index_def)
qed

lemma random_rpc_url_outcomes:
  assumes "map_of urls network = Some pool" and "pool \<noteq> []"
  shows "{r. \<exists>rng. valid_rng rng \<and> random_rpc_url urls rng network = r} = Inr ` set pool"
proof (intro equalityI subsetI)
  fix r assume "r \<in> {r. \<exists>rng. valid_rng rng \<and> random_rpc_url urls rng network = r}"
  then obtain rng where "valid_rng rng" "random_rpc_url urls rng network = r" by blast
  with random_rpc_url_pool [OF assms] show "r \<in> Inr ` set pool"
    by (metis imageI nth_mem)
next
  fix r :: "error + string" assume "r \<in> Inr ` set pool"
  then obtain u where u: "u \<in> set pool" "r = Inr u" by blast
  then obtain i where i: "i < length pool" "pool ! i = u" by (auto simp: in_set_conv_nth)
  define rng :: rng where "rng = (\<lambda>a b. if a \<le> int i \<and> int i \<le> b then int i else a)"
  have v: "valid_rng rng" by (simp add: valid_rng_def rng_def)
  have "rng 0 (int (length pool) - 1) = int i" using i(1) by (simp add: rng_def)
  with random_rpc_url_pool(1) [OF assms v] i u
  have "random_rpc_url urls rng network = r" by simp
  with v show "r \<in> {r. \<exists>rng. valid_rng rng \<and> random_rpc_url urls rng network = r}" by blast
qed

lemma get_rpc_url_in_pool_backed:
  "network \<in> {TESTNET, SEPOLIA, MAINNET} \<Longrightarrow>
   get_rpc_url_in urls rng network port = random_rpc_url urls rng network"
  by (auto simp: get_rpc_url_in_def network_names)

lemma random_rpc_url_RPC_URLS_value:
  assumes "valid_rng rng"
  shows "random_rpc_url RPC_URLS rng MAINNET
           = Inr ''https://starknet-mainnet.public.blastapi.io/rpc/v0_6''"
    and "random_rpc_url RPC_URLS rng TESTNET
           = Inr ''https://starknet-testnet.public.blastapi.io/rpc/v0_6''"
    and "random_rpc_url RPC_URLS rng SEPOLIA
           = Inr ''https://starknet-sepolia.public.blastapi.io/rpc/v0_6''"
  using valid_rng_singleton [OF assms, of 0]
  by (simp_all add: random_rpc_url_def RPC_URLS_def network_names randint_def py_index_def)

text \<open>
  Claim C4: get_rpc_url returns its network argument unchanged whenever the argument starts
  with "http". It raises exactly when the argument neither starts with "http" nor is one of
  the seven network names, and what it raises then is the ClientException with the message
  "Must provide a network name or an RPC URL."; for each of the seven names it returns a URL
  (a string that starts with "http" and is not the name), namely the one entry of the
  network's pool, the fixed URL of sharingan or pragma_testnet, or the local URL with the
  port. The generator is any one whose draws are in range.
\<close>

theorem C4_get_rpc_url_errors:
  "(prefix ''http'' network \<longrightarrow> get_rpc_url rng (Some network) port = Inr network) \<and>
   (valid_rng rng \<longrightarrow>
      ((\<exists>e. get_rpc_url rng (Some network) port = Inl e) \<longleftrightarrow>
         \<not> prefix ''http'' network \<and>
         network \<notin> {MAINNET, TESTNET, SEPOLIA, SHARINGAN, PRAGMA_TESTNET, DEVNET, FORK_DEVNET}) \<and>
      (\<forall>e. get_rpc_url rng (Some network) port = Inl e \<longrightarrow>
         e = ClientException ''Must provide a network name or an RPC URL.'') \<and>
      (network \<in> {MAINNET, TESTNET, SEPOLIA, SHARINGAN, PRAGMA_TESTNET, DEVNET, FORK_DEVNET} \<longrightarrow>
         (\<exists>url. get_rpc_url rng (Some network) port = Inr url \<and> prefix ''http'' url \<and>
            url \<noteq> network)) \<and>
      get_rpc_url rng (Some MAINNET) port
        = Inr ''https://starknet-mainnet.public.blastapi.io/rpc/v0_6'' \<and>
      get_rpc_url rng (Some TESTNET) port
        = Inr ''https://starknet-testnet.public.blastapi.io/rpc/v0_6'' \<and>
      get_rpc_url rng (Some SEPOLIA) port
        = Inr ''https://starknet-sepolia.public.blastapi.io/rpc/v0_6'' \<and>
      get_rpc_url rng (Some SHARINGAN) port = Inr ''https://sharingan.madara.zone'' \<and>
      get_rpc_url rng (Some PRAGMA_TESTNET) port = Inr ''https://testnet.pragmaoracle.com/rpc'' \<and>
      get_rpc_url rng (Some DEVNET) port
        = Inr (''http://127.0.0.1:'' @ str_of_int (case port of None \<Rightarrow> 5050 | Some p \<Rightarrow> p)
               @ ''/rpc'') \<and>
      get_rpc_url rng (Some FORK_DEVNET) port
        = Inr (''http://127.0.0.1:'' @ str_of_int (case port of None \<Rightarrow> 5050 | Some p \<Rightarrow> p)
               @ ''/rpc''))"
proof (intro conjI impI)
  assume "prefix ''http'' network"
  then show "get_rpc_url rng (Some network) port = Inr network"
    by (simp add: get_rpc_url_def get_rpc_url_in_def)
next
  assume v: "valid_rng rng"
  note pools = random_rpc_url_RPC_URLS_value [OF v]
  have vals:
    "get_rpc_url rng (Some MAINNET) port
        = Inr ''https://starknet-mainnet.public.blastapi.io/rpc/v0_6''"
    "get_rpc_url rng (Some TESTNET) port
        = Inr ''https://starknet-testnet.public.blastapi.io/rpc/v0_6''"
    "get_rpc_url rng (Some SEPOLIA) port
        = Inr ''https://starknet-sepolia.public.blastapi.io/rpc/v0_6''"
    "get_rpc_url rng (Some SHARINGAN) port = Inr ''https://sharingan.madara.zone''"
    "get_rpc_url rng (Some PRAGMA_TESTNET) port = Inr ''https://testnet.pragmaoracle.com/rpc''"
    "get_rpc_url rng (Some DEVNET) port
        = Inr (''http://127.0.0.1:'' @ str_of_int (case port of None \<Rightarrow> 5050 | Some p \<Rightarrow> p)
               @ ''/rpc'')"
    "get_rpc_url rng (Some FORK_DEVNET) port
        = Inr (''http://127.0.0.1:'' @ str_of_int (case port of None \<Rightarrow> 5050 | Some p \<Rightarrow> p)
               @ ''/rpc'')"
    using pools by (simp_all add: get_rpc_url_def get_rpc_url_in_def) (simp_all add: network_names)
  show "get_rpc_url rng (Some MAINNET) port
        = Inr ''https://starknet-mainnet.public.blastapi.io/rpc/v0_6''" by (rule vals)
  show "get_rpc_url rng (Some TESTNET) port
        = Inr ''https://starknet-testnet.public.blastapi.io/rpc/v0_6''" by (rule vals)
  show "get_rpc_url rng (Some SEPOLIA) port
        = Inr ''https://starknet-sepolia.public.blastapi.io/rpc/v0_6''" by (rule vals)
  show "get_rpc_url rng (Some SHARINGAN) port = Inr ''https://sharingan.madara.zone''"
    by (rule vals)
  show "get_rpc_url rng (Some PRAGMA_TESTNET) port = Inr ''https://testnet.pragmaoracle.com/rpc''"
    by (rule vals)
  show "get_rpc_url rng (Some DEVNET) port
        = Inr (''http://127.0.0.1:'' @ str_of_int (case port of None \<Rightarrow> 5050 | Some p \<Rightarrow> p)
               @ ''/rpc'')" by (rule vals)
  show "get_rpc_url rng (Some FORK_DEVNET) port
        = Inr (''http://127.0.0.1:'' @ str_of_int (case port of None \<Rightarrow> 5050 | Some p \<Rightarrow> p)
               @ ''/rpc'')" by (rule vals)
  have supported: "\<exists>url. get_rpc_url rng (Some network) port = Inr url \<and> prefix ''http'' url \<and>
            url \<noteq> network"
    if "network \<in> {MAINNET, TESTNET, SEPOLIA, SHARINGAN, PRAGMA_TESTNET, DEVNET, FORK_DEVNET}"
    using that vals by (auto simp: network_names)
  then show "\<exists>url. get_rpc_url rng (Some network) port = Inr url \<and> prefix ''http'' url \<and>
            url \<noteq> network"
    if "network \<in> {MAINNET, TESTNET, SEPOLIA, SHARINGAN, PRAGMA_TESTNET, DEVNET, FORK_DEVNET}"
    using that by blast
  have unsupported: "get_rpc_url rng (Some network) port
      = Inl (ClientException ''Must provide a network name or an RPC URL.'')"
    if "\<not> prefix ''http'' network"
      "network \<notin> {MAINNET, TESTNET, SEPOLIA, SHARINGAN, PRAGMA_TESTNET, DEVNET, FORK_DEVNET}"
    using that by (simp add: get_rpc_url_def get_rpc_url_in_def)
  have url: "get_rpc_url rng (Some network) port = Inr network" if "prefix ''http'' network"
    using that by (simp add: get_rpc_url_def get_rpc_url_in_def)
  show "(\<exists>e. get_rpc_url rng (Some network) port = Inl e) \<longleftrightarrow>
         \<not> prefix ''http'' network \<and>
         network \<notin> {MAINNET, TESTNET, SEPOLIA, SHARINGAN, PRAGMA_TESTNET, DEVNET, FORK_DEVNET}"
    using supported unsupported url by (metis Inl_Inr_False)
  show "\<forall>e. get_rpc_url rng (Some network) port = Inl e \<longrightarrow>
         e = ClientException ''Must provide a network name or an RPC URL.''"
    using supported unsupported url by (metis Inl_Inr_False sum.inject(1))
qed

theorem C4_get_rpc_url_errors_witness:
  "get_rpc_url (\<lambda>a b. a) (Some ''https://node.example/rpc'') None = Inr ''https://node.example/rpc'' \<and>
   get_rpc_url (\<lambda>a b. a) (Some ''not-a-network'') None
     = Inl (ClientException ''Must provide a network name or an RPC URL.'') \<and>
   get_rpc_url (\<lambda>a b. a) (Some ''mainnet'') None
     = Inr ''https://starknet-mainnet.public.blastapi.io/rpc/v0_6''"
  using valid_rng_first
    C4_get_rpc_url_errors [of "''https://node.example/rpc''" "\<lambda>a b. a" None]
    C4_get_rpc_url_errors [of "''not-a-network''" "\<lambda>a b. a" None]
    C4_get_rpc_url_errors [of "''mainnet''" "\<lambda>a b. a" None]
  by (auto simp: network_names)

text \<open>What the code returns when the draw is the index \<open>i\<close>, and how many draws give a URL.\<close>

lemma valid_draw_rng: "valid_rng (draw_rng d)"
  by (simp add: valid_rng_def draw_rng_def)

lemma count_list_nth_filter:
  "length (filter (\<lambda>i. xs ! i = u) [0..<length xs]) = count_list xs u"
proof (induction xs rule: rev_induct)
  case Nil
  show ?case by simp
next
  case (snoc x xs)
  have "filter (\<lambda>i. (xs @ [x]) ! i = u) [0..<length xs] = filter (\<lambda>i. xs ! i = u) [0..<length xs]"
    by (rule filter_cong) (simp_all add: nth_append)
  with snoc.IH show ?case by simp
qed

lemma random_rpc_url_draw:
  assumes "map_of urls network = Some pool" and "i < length pool"
  shows "random_rpc_url urls (draw_rng (int i)) network = Inr (pool ! i)"
  using assms by (auto simp: random_rpc_url_def randint_def draw_rng_def py_index_def)

lemma random_rpc_url_draw_count:
  assumes "map_of urls network = Some pool"
  shows "length (filter (\<lambda>i. random_rpc_url urls (draw_rng (int i)) network = Inr u)
           [0..<length pool]) = count_list pool u"
proof -
  have "filter (\<lambda>i. random_rpc_url urls (draw_rng (int i)) network = Inr u) [0..<length pool]
      = filter (\<lambda>i. pool ! i = u) [0..<length pool]"
    by (rule filter_cong) (simp_all add: random_rpc_url_draw [OF assms])
  then show ?thesis by (simp add: count_list_nth_filter)
qed

text \<open>
  Claim C5: for a pool-backed network (testnet, sepolia, mainnet) whose pool is not empty,
  the results that get_rpc_url can give, over all generators whose draws are in range, are
  exactly the URLs of the pool: every result is in the pool and every URL of the pool is a
  result. This holds for a table with pools of any size and for the module's table
  \<^verbatim>\<open>RPC_URLS\<close> in particular. The selection is uniform: the call makes one draw
  \<^verbatim>\<open>random.randint(0, len(pool) - 1)\<close> and returns the entry of the pool at the index
  drawn, so each of the equally likely draws selects its own position of the pool, and the
  number of draws that give a URL is the number of times the URL is in the pool.
\<close>

theorem C5_pool_selection:
  "(network \<in> {TESTNET, SEPOLIA, MAINNET} \<and> map_of urls network = Some pool \<and> pool \<noteq> [] \<longrightarrow>
      {r. \<exists>rng. valid_rng rng \<and> get_rpc_url_in urls rng network port = r} = Inr ` set pool) \<and>
   (network \<in> {TESTNET, SEPOLIA, MAINNET} \<longrightarrow>
      (\<exists>pool. map_of RPC_URLS network = Some pool \<and> pool \<noteq> [] \<and>
         {r. \<exists>rng. valid_rng rng \<and> get_rpc_url rng (Some network) (Some port) = r}
           = Inr ` set pool)) \<and>
   (network \<in> {TESTNET, SEPOLIA, MAINNET} \<and> map_of urls network = Some pool \<and> pool \<noteq> [] \<and>
    valid_rng rng \<longrightarrow>
      0 \<le> rng 0 (int (length pool) - 1) \<and> rng 0 (int (length pool) - 1) < int (length pool) \<and>
      get_rpc_url_in urls rng network port
        = Inr (pool ! nat (rng 0 (int (length pool) - 1)))) \<and>
   (network \<in> {TESTNET, SEPOLIA, MAINNET} \<and> map_of urls network = Some pool \<longrightarrow>
      valid_rng (draw_rng (int i)) \<and>
      (i < length pool \<longrightarrow>
         get_rpc_url_in urls (draw_rng (int i)) network port = Inr (pool ! i)) \<and>
      length (filter (\<lambda>i. get_rpc_url_in urls (draw_rng (int i)) network port = Inr u)
                [0..<length pool]) = count_list pool u)"
proof (intro conjI impI)
  assume "network \<in> {TESTNET, SEPOLIA, MAINNET} \<and> map_of urls network = Some pool \<and> pool \<noteq> []"
  then show "{r. \<exists>rng. valid_rng rng \<and> get_rpc_url_in urls rng network port = r} = Inr ` set pool"
    using random_rpc_url_outcomes [of urls network pool]
    by (simp add: get_rpc_url_in_pool_backed)
next
  assume n: "network \<in> {TESTNET, SEPOLIA, MAINNET}"
  then obtain pool where p: "map_of RPC_URLS network = Some pool" "pool \<noteq> []"
    by (auto simp: RPC_URLS_def network_names)
  with n random_rpc_url_outcomes [of RPC_URLS network pool]
  show "\<exists>pool. map_of RPC_URLS network = Some pool \<and> pool \<noteq> [] \<and>
         {r. \<exists>rng. valid_rng rng \<and> get_rpc_url rng (Some network) (Some port) = r}
           = Inr ` set pool"
    by (simp add: get_rpc_url_def get_rpc_url_in_pool_backed)
next
  assume h: "network \<in> {TESTNET, SEPOLIA, MAINNET} \<and> map_of urls network = Some pool \<and>
    pool \<noteq> [] \<and> valid_rng rng"
  then have n: "network \<in> {TESTNET, SEPOLIA, MAINNET}" and m: "map_of urls network = Some pool"
    and ne: "pool \<noteq> []" and v: "valid_rng rng" by simp_all
  from ne have "0 \<le> int (length pool) - 1" by (cases pool) simp_all
  with v have d: "0 \<le> rng 0 (int (length pool) - 1)"
    "rng 0 (int (length pool) - 1) \<le> int (length pool) - 1"
    unfolding valid_rng_def by blast+
  from d(1) show "0 \<le> rng 0 (int (length pool) - 1)" .
  from d(2) show "rng 0 (int (length pool) - 1) < int (length pool)" by linarith
  show "get_rpc_url_in urls rng network port = Inr (pool ! nat (rng 0 (int (length pool) - 1)))"
    using n random_rpc_url_pool(1) [OF m ne v] by (simp add: get_rpc_url_in_pool_backed)
next
  show "valid_rng (draw_rng (int i))" by (rule valid_draw_rng)
next
  assume h: "network \<in> {TESTNET, SEPOLIA, MAINNET} \<and> map_of urls network = Some pool"
    and i: "i < length pool"
  then show "get_rpc_url_in urls (draw_rng (int i)) network port = Inr (pool ! i)"
    by (simp add: get_rpc_url_in_pool_backed random_rpc_url_draw)
next
  assume h: "network \<in> {TESTNET, SEPOLIA, MAINNET} \<and> map_of urls network = Some pool"
  then show "length (filter (\<lambda>i. get_rpc_url_in urls (draw_rng (int i)) network port = Inr u)
                [0..<length pool]) = count_list pool u"
    by (simp add: get_rpc_url_in_pool_backed random_rpc_url_draw_count)
qed

theorem C5_pool_selection_witness:
  "{r. \<exists>rng. valid_rng rng \<and>
        get_rpc_url_in [(MAINNET, [''https://a.example/rpc'', ''https://b.example/rpc''])]
          rng MAINNET 5050 = r}
     = Inr ` set [''https://a.example/rpc'', ''https://b.example/rpc''] \<and>
   get_rpc_url_in [(MAINNET, [''https://a.example/rpc'', ''https://b.example/rpc''])]
     (draw_rng (int 1)) MAINNET 5050 = Inr ''https://b.example/rpc'' \<and>
   length (filter
     (\<lambda>i. get_rpc_url_in [(MAINNET, [''https://a.example/rpc'', ''https://b.example/rpc''])]
             (draw_rng (int i)) MAINNET 5050 = Inr ''https://b.example/rpc'')
     [0..<length [''https://a.example/rpc'', ''https://b.example/rpc'']]) = 1 \<and>
   (\<exists>pool. map_of RPC_URLS TESTNET = Some pool \<and> pool \<noteq> [] \<and>
      {r. \<exists>rng. valid_rng rng \<and> get_rpc_url rng (Some TESTNET) (Some 5050) = r}
        = Inr ` set pool)"
proof -
  let ?urls = "[(MAINNET, [''https://a.example/rpc'', ''https://b.example/rpc''])]"
  let ?pool = "[''https://a.example/rpc'', ''https://b.example/rpc'']"
  have n: "MAINNET \<in> {TESTNET, SEPOLIA, MAINNET}" "TESTNET \<in> {TESTNET, SEPOLIA, MAINNET}"
    by simp_all
  have m: "map_of ?urls MAINNET = Some ?pool" "?pool \<noteq> []" "(1::nat) < length ?pool"
    by simp_all
  have c: "count_list ?pool ''https://b.example/rpc'' = 1" "?pool ! 1 = ''https://b.example/rpc''"
    by simp_all
  note t = C5_pool_selection [where network = MAINNET and urls = ?urls and pool = ?pool and port = 5050
      and i = 1 and u = "''https://b.example/rpc''"]
  note a = C5_pool_selection [where network = TESTNET and port = 5050]
  from t n(1) m have
    "{r. \<exists>rng. valid_rng rng \<and> get_rpc_url_in ?urls rng MAINNET 5050 = r} = Inr ` set ?pool"
    by blast
  moreover from t n(1) m(1,3) have
    "get_rpc_url_in ?urls (draw_rng (int 1)) MAINNET 5050 = Inr (?pool ! 1)"
    by blast
  moreover from t n(1) m(1) have
    "length (filter (\<lambda>i. get_rpc_url_in ?urls (draw_rng (int i)) MAINNET 5050
        = Inr ''https://b.example/rpc'') [0..<length ?pool]) = count_list ?pool ''https://b.example/rpc''"
    by blast
  moreover from a n(2) have
    "\<exists>pool. map_of RPC_URLS TESTNET = Some pool \<and> pool \<noteq> [] \<and>
      {r. \<exists>rng. valid_rng rng \<and> get_rpc_url rng (Some TESTNET) (Some 5050) = r}
        = Inr ` set pool"
    by blast
  ultimately show ?thesis by (simp only: c)
qed

text \<open>Decimal renderings of the two ports of the examples.\<close>

lemma char_of_54: "char_of (54::nat) = CHR ''6''"
  by code_simp

lemma char_of_48: "char_of (48::nat) = CHR ''0''"
  by code_simp

lemma char_of_53: "char_of (53::nat) = CHR ''5''"
  by code_simp

lemma str_of_int_6060: "str_of_int 6060 = ''6060''"
  by (simp add: str_of_int_def decimal_digits.simps char_of_54 char_of_48)

lemma str_of_int_5050: "str_of_int 5050 = ''5050''"
  by (simp add: str_of_int_def decimal_digits.simps char_of_53 char_of_48)

text \<open>
  Claim C8: for devnet and fork_devnet and every port p, get_rpc_url returns
  "http://127.0.0.1:" followed by the decimal digits of p and "/rpc"; an omitted port is
  5050. In particular get_rpc_url("devnet", port=6060) is "http://127.0.0.1:6060/rpc".
\<close>

theorem C8_devnet_url:
  "get_rpc_url rng (Some DEVNET) (Some p) = Inr (''http://127.0.0.1:'' @ str_of_int p @ ''/rpc'') \<and>
   get_rpc_url rng (Some FORK_DEVNET) (Some p) = Inr (''http://127.0.0.1:'' @ str_of_int p @ ''/rpc'') \<and>
   get_rpc_url rng (Some DEVNET) None = Inr ''http://127.0.0.1:5050/rpc'' \<and>
   get_rpc_url rng (Some FORK_DEVNET) None = Inr ''http://127.0.0.1:5050/rpc'' \<and>
   get_rpc_url rng (Some ''devnet'') (Some 6060) = Inr ''http://127.0.0.1:6060/rpc''"
  by (simp add: get_rpc_url_def get_rpc_url_in_def network_names str_of_int_6060 str_of_int_5050)

text \<open>
  The inverse of a dict, as the comprehension builds it: a value is mapped to the last key
  that has it.
\<close>

lemma map_of_fold_update:
  "map_of (fold (\<lambda>(k, v) d. AList.update v k d) items d) c =
     (case filter (\<lambda>(k, v). v = c) items of
        [] \<Rightarrow> map_of d c
      | x # xs \<Rightarrow> Some (fst (last (x # xs))))"
proof (induction items arbitrary: d)
  case Nil
  then show ?case by simp
next
  case (Cons p items)
  obtain k v where p: "p = (k, v)" by (cases p)
  show ?case
  proof (cases "filter (\<lambda>(k, v). v = c) items")
    case Nil
    then show ?thesis by (cases "v = c") (simp_all add: p Cons.IH update_conv')
  next
    case (Cons y ys)
    then show ?thesis by (simp add: p Cons.IH)
  qed
qed

lemma map_of_invert_dict:
  "map_of (invert_dict items) c =
     (case filter (\<lambda>(k, v). v = c) items of
        [] \<Rightarrow> None
      | x # xs \<Rightarrow> Some (fst (last (x # xs))))"
  by (simp add: invert_dict_def map_of_fold_update split: list.splits)

lemma invert_dict_unaliased:
  assumes "(n, c) \<in> set items" and "\<forall>m. (m, c) \<in> set items \<longrightarrow> m = n"
  shows "map_of (invert_dict items) c = Some n"
proof -
  let ?xs = "filter (\<lambda>(k, v). v = c) items"
  have ne: "?xs \<noteq> []" using assms(1) by (auto simp: filter_empty_conv)
  then have "last ?xs \<in> set ?xs" by (rule last_in_set)
  then have "fst (last ?xs) = n" using assms(2) by auto
  with ne show ?thesis by (cases ?xs) (simp_all add: map_of_invert_dict)
qed

lemma CHAIN_ID_TO_NETWORK_value:
  "CHAIN_ID_TO_NETWORK =
     [(1536727068981429685321, FORK_DEVNET),
      (23448594291968334, MAINNET),
      (8908953246943201047421899664489, PRAGMA_TESTNET),
      (393402133025997798000961, SEPOLIA)]"
  by (simp add: CHAIN_ID_TO_NETWORK_def invert_dict_def CHAIN_IDS_def)

text \<open>
  Claim C6: for every network n with chain id c in \<^verbatim>\<open>CHAIN_IDS\<close>, the inverse table maps
  c to the last network written with the chain id c, which is n itself when no other network
  has that chain id. On the module's table: mainnet, pragma_testnet and sepolia are mapped
  back to themselves; devnet, sharingan, testnet and fork_devnet share one chain id, which the
  inverse maps to fork_devnet, the last of them.
\<close>

theorem C6_chain_id_inverse:
  "((n, c) \<in> set CHAIN_IDS \<longrightarrow>
      map_of CHAIN_ID_TO_NETWORK c
        = Some (fst (last (filter (\<lambda>(k, v). v = c) CHAIN_IDS))) \<and>
      ((\<forall>m. (m, c) \<in> set CHAIN_IDS \<longrightarrow> m = n) \<longrightarrow> map_of CHAIN_ID_TO_NETWORK c = Some n)) \<and>
   (\<forall>(n, c) \<in> set CHAIN_IDS.
      map_of CHAIN_ID_TO_NETWORK c =
        Some (if n \<in> {DEVNET, SHARINGAN, TESTNET, FORK_DEVNET} then FORK_DEVNET else n)) \<and>
   distinct (map fst CHAIN_IDS)"
proof (intro conjI impI)
  assume m: "(n, c) \<in> set CHAIN_IDS"
  then have ne: "filter (\<lambda>(k, v). v = c) CHAIN_IDS \<noteq> []"
    by (auto simp: filter_empty_conv)
  then show "map_of CHAIN_ID_TO_NETWORK c
        = Some (fst (last (filter (\<lambda>(k, v). v = c) CHAIN_IDS)))"
    by (cases "filter (\<lambda>(k, v). v = c) CHAIN_IDS")
      (simp_all add: CHAIN_ID_TO_NETWORK_def map_of_invert_dict)
  assume "\<forall>m. (m, c) \<in> set CHAIN_IDS \<longrightarrow> m = n"
  with m show "map_of CHAIN_ID_TO_NETWORK c = Some n"
    unfolding CHAIN_ID_TO_NETWORK_def by (rule invert_dict_unaliased)
next
  show "\<forall>(n, c) \<in> set CHAIN_IDS.
      map_of CHAIN_ID_TO_NETWORK c =
        Some (if n \<in> {DEVNET, SHARINGAN, TESTNET, FORK_DEVNET} then FORK_DEVNET else n)"
    by (simp add: CHAIN_ID_TO_NETWORK_value) (simp add: CHAIN_IDS_def network_names)
next
  show "distinct (map fst CHAIN_IDS)"
    by (simp add: CHAIN_IDS_def network_names)
qed

theorem C6_chain_id_inverse_witness:
  "(MAINNET, 23448594291968334) \<in> set CHAIN_IDS \<and>
   map_of CHAIN_ID_TO_NETWORK 23448594291968334 = Some MAINNET \<and>
   (TESTNET, 1536727068981429685321) \<in> set CHAIN_IDS \<and>
   map_of CHAIN_ID_TO_NETWORK 1536727068981429685321 = Some FORK_DEVNET"
  using C6_chain_id_inverse [of MAINNET 23448594291968334]
    C6_chain_id_inverse [of TESTNET 1536727068981429685321]
  by (simp add: CHAIN_IDS_def network_names)

section \<open>Properties of the field-element codec\<close>

lemma str_to_felt_Nil: "str_to_felt [] = 0"
  by (simp add: str_to_felt_def)

lemma str_to_felt_snoc: "str_to_felt (s @ [c]) = str_to_felt s * 256 + of_char c"
  by (simp add: str_to_felt_def)

lemma of_char_int_bounds: "0 \<le> (of_char c :: int) \<and> (of_char c :: int) < 256"
proof -
  have eq: "(of_char c :: int) = int (of_char c)" by (simp only: of_nat_of_char)
  have "(of_char c :: nat) < 256" by (rule nat_of_char_less_256)
  then have "int (of_char c) < 256" by linarith
  with eq show ?thesis by simp
qed

lemma str_to_felt_nonneg: "0 \<le> str_to_felt s"
proof (induction s rule: rev_induct)
  case Nil
  show ?case by (simp add: str_to_felt_Nil)
next
  case (snoc c s)
  with of_char_int_bounds [of c] show ?case by (simp add: str_to_felt_snoc)
qed

lemma str_to_felt_less: "str_to_felt s < 256 ^ length s"
proof (induction s rule: rev_induct)
  case Nil
  show ?case by (simp add: str_to_felt_Nil)
next
  case (snoc c s)
  have "str_to_felt s * 256 + of_char c < (str_to_felt s + 1) * 256"
    using of_char_int_bounds [of c] by (simp add: algebra_simps)
  also have "\<dots> \<le> 256 ^ length s * 256"
    using snoc.IH by (intro mult_right_mono) simp_all
  finally show ?case by (simp add: str_to_felt_snoc)
qed

lemma base256_div_mod:
  fixes f x :: int
  assumes "0 \<le> x" and "x < 256"
  shows "(f * 256 + x) div 256 = f" and "(f * 256 + x) mod 256 = x"
proof -
  have "(f * 256 + x) div 256 = f + x div 256" by (rule div_mult_self3) simp
  also have "x div 256 = 0" using assms by (rule div_pos_pos_trivial)
  finally show "(f * 256 + x) div 256 = f" by simp
  have "(f * 256 + x) mod 256 = x mod 256" by (rule mod_mult_self3)
  also have "x mod 256 = x" using assms by (rule mod_pos_pos_trivial)
  finally show "(f * 256 + x) mod 256 = x" .
qed

lemma felt_to_str_snoc:
  assumes "0 \<le> f" and "(of_char c :: int) \<noteq> 0"
  shows "felt_to_str (f * 256 + of_char c) = felt_to_str f @ [c]"
proof -
  have b: "0 \<le> (of_char c :: int)" "(of_char c :: int) < 256"
    using of_char_int_bounds [of c] by simp_all
  from assms b(1) have "0 < f * 256 + of_char c" by linarith
  then have pos: "\<not> f * 256 + of_char c \<le> 0" by linarith
  note d = base256_div_mod(1) [OF b, of f]
  note m = base256_div_mod(2) [OF b, of f]
  show ?thesis
    by (subst felt_to_str.simps) (simp only: pos d m if_False char_of_char)
qed

lemma felt_to_str_str_to_felt:
  "\<forall>c \<in> set s. (of_char c :: nat) \<noteq> 0 \<Longrightarrow> felt_to_str (str_to_felt s) = s"
proof (induction s rule: rev_induct)
  case Nil
  show ?case by (subst felt_to_str.simps) (simp add: str_to_felt_Nil)
next
  case (snoc c s)
  then have nz: "(of_char c :: nat) \<noteq> 0" and rest: "\<forall>c \<in> set s. (of_char c :: nat) \<noteq> 0"
    by simp_all
  from nz have "int (of_char c) \<noteq> 0" by simp
  then have "(of_char c :: int) \<noteq> 0" by (simp add: of_nat_of_char)
  with str_to_felt_nonneg [of s] snoc.IH [OF rest] show ?case
    by (simp add: str_to_felt_snoc felt_to_str_snoc)
qed

lemma supported_BTC_USD: "supported_identifier ''BTC/USD''"
  by (simp add: supported_identifier_def)

text \<open>A NUL character in front does not change the felt, which is why it is not supported.\<close>

lemma leading_NUL: "str_to_felt (CHR 0x00 # s) = str_to_felt s"
  by (simp add: str_to_felt_def)

text \<open>
  Claim C9: for every supported identifier s, felt_to_str(str_to_felt(s)) is s; str_to_felt
  gives every supported identifier a felt, a non-negative integer below \<open>2 ^ 248\<close>; and it
  is injective on the supported identifiers.
\<close>

theorem C9_codec_round_trip:
  "(supported_identifier s \<longrightarrow>
      felt_to_str (str_to_felt s) = s \<and> 0 \<le> str_to_felt s \<and> str_to_felt s < 2 ^ 248) \<and>
   (supported_identifier s \<and> supported_identifier t \<and> str_to_felt s = str_to_felt t \<longrightarrow> s = t)"
proof -
  have nz: "\<forall>c \<in> set u. (of_char c :: nat) \<noteq> 0" if "supported_identifier u" for u
    using that unfolding supported_identifier_def by fastforce
  have rt: "felt_to_str (str_to_felt u) = u" if "supported_identifier u" for u
    using nz [OF that] by (rule felt_to_str_str_to_felt)
  have bound: "str_to_felt s < 2 ^ 248" if "supported_identifier s"
  proof -
    from that have len: "length s \<le> 31" by (simp add: supported_identifier_def)
    have "str_to_felt s < 256 ^ length s" by (rule str_to_felt_less)
    also have "(256::int) ^ length s \<le> 256 ^ 31"
      using len by (intro power_increasing) simp_all
    also have "(256::int) ^ 31 = 2 ^ 248" by simp
    finally show ?thesis .
  qed
  have inj: "s = t"
    if "supported_identifier s" "supported_identifier t" "str_to_felt s = str_to_felt t"
    using rt [OF that(1)] rt [OF that(2)] that(3) by metis
  from rt [of s] bound inj str_to_felt_nonneg [of s] show ?thesis by blast
qed

theorem C9_codec_round_trip_witness:
  "supported_identifier ''BTC/USD'' \<and>
   str_to_felt ''BTC/USD'' = 18669995996566340 \<and>
   felt_to_str 18669995996566340 = ''BTC/USD'' \<and>
   (18669995996566340 :: int) < 2 ^ 248"
proof -
  have "felt_to_str (str_to_felt ''BTC/USD'') = ''BTC/USD'' \<and> str_to_felt ''BTC/USD'' < 2 ^ 248"
    using C9_codec_round_trip [of "''BTC/USD''" "''BTC/USD''"] supported_BTC_USD by blast
  then show ?thesis
    using supported_BTC_USD by (simp only: felt_BTC_USD)
qed

end
